theory Spec2Isabelle
  imports Main "HOL-Library.Word"
begin

section \<open>The popup script (frontend/public/script.js)\<close>

subsection \<open>Strings\<close>

text \<open>
  A JavaScript string is modelled as a \<open>string\<close>, a list of 8-bit characters: the
  model covers the strings whose code units are all below 256.  \<^verbatim>\<open>trim()\<close> removes the
  white space and line terminators at both ends; below 256 these are tab, line feed,
  vertical tab, form feed, carriage return, space and the no-break space.
\<close>

definition js_whitespace :: "char \<Rightarrow> bool" where
  "js_whitespace c \<longleftrightarrow> (of_char c :: nat) \<in> {9, 10, 11, 12, 13, 32, 160}"

definition trim :: "string \<Rightarrow> string" where
  "trim s = rev (dropWhile js_whitespace (rev (dropWhile js_whitespace s)))"

text \<open>The operands of \<^verbatim>\<open>a || b\<close> where \<open>a\<close> is a string or undefined.\<close>

definition or_else :: "string option \<Rightarrow> string \<Rightarrow> string" where
  "or_else a b = (case a of None \<Rightarrow> b | Some s \<Rightarrow> if s = [] then b else s)"

text \<open>String concatenation with a value that may be undefined.\<close>

definition to_text :: "string option \<Rightarrow> string" where
  "to_text a = (case a of None \<Rightarrow> ''undefined'' | Some s \<Rightarrow> s)"

text \<open>A value used as a condition: \<^verbatim>\<open>null\<close>, \<^verbatim>\<open>undefined\<close> and \<^verbatim>\<open>''\<close> are falsy.\<close>

definition truthy :: "string option \<Rightarrow> bool" where
  "truthy a \<longleftrightarrow> (case a of None \<Rightarrow> False | Some s \<Rightarrow> s \<noteq> [])"

text \<open>The decimal text of a number, as a template literal prints an array length.\<close>

function string_of_nat :: "nat \<Rightarrow> string" where
  "string_of_nat n =
     (if n < 10 then [char_of (48 + n)]
      else string_of_nat (n div 10) @ [char_of (48 + n mod 10)])"
  by pat_completeness auto
termination
  by (relation "measure id") auto

subsection \<open>The address pattern\<close>

text \<open>
  \<^verbatim>\<open>/^0x[a-fA-F0-9]{40}$/.test(s)\<close>: the class \<^verbatim>\<open>[a-fA-F0-9]\<close> is three ranges of code
  units; \<^verbatim>\<open>{40}\<close> consumes exactly forty characters of the class; without the \<^verbatim>\<open>m\<close>
  flag \<^verbatim>\<open>^\<close> and \<^verbatim>\<open>$\<close> match at the two ends of the input only.
\<close>

definition hex_class :: "char \<Rightarrow> bool" where
  "hex_class c \<longleftrightarrow>
     (let n = (of_char c :: nat) in
      (97 \<le> n \<and> n \<le> 102) \<or> (65 \<le> n \<and> n \<le> 70) \<or> (48 \<le> n \<and> n \<le> 57))"

fun repeat_class :: "(char \<Rightarrow> bool) \<Rightarrow> nat \<Rightarrow> string \<Rightarrow> string option" where
  "repeat_class p 0 s = Some s"
| "repeat_class p (Suc n) [] = None"
| "repeat_class p (Suc n) (c # s) = (if p c then repeat_class p n s else None)"

definition address_regex_test :: "string \<Rightarrow> bool" where
  "address_regex_test s =
     (case s of
        c0 # c1 # rest \<Rightarrow>
          c0 = CHR ''0'' \<and> c1 = CHR ''x'' \<and> repeat_class hex_class 40 rest = Some []
      | _ \<Rightarrow> False)"

text \<open>
  The pattern in the words of the specification: the prefix \<open>0x\<close> followed by exactly
  forty hexadecimal characters.
\<close>

definition spec_address_pattern :: "string \<Rightarrow> bool" where
  "spec_address_pattern s \<longleftrightarrow>
     (\<exists>h. s = ''0x'' @ h \<and> length h = 40 \<and> set h \<subseteq> set ''0123456789abcdefABCDEF'')"

subsection \<open>Data\<close>

text \<open>
  A number is the 64-bit pattern of its IEEE double; no arithmetic on numbers is
  modelled.  Values of the document store are JSON values.
\<close>

datatype jsvalue =
    JNull
  | JBool bool
  | JNumber "64 word"
  | JString string
  | JObject "(string \<times> jsvalue) list"

record transcript_line =
  agent_name :: string
  message :: string
  line_type :: string
  line_timestamp :: "64 word"

record verdict =
  verdict_type :: string
  final_fine_eth :: "64 word"
  final_ban_status :: string
  explanation :: string
  final_compensation_eth :: "64 word"
  social_score :: "64 word"
  social_score_explanation :: string

text \<open>
  The session snapshot, with the shape of the initial value of
  \<^verbatim>\<open>appState.courtroomSessionState\<close>.  A response body of the polling endpoint is a
  value of this type: bodies of another shape are outside the model.
\<close>

record courtroomSessionState =
  court_status :: string
  current_turn_agent :: "string option"
  transcript :: "transcript_line list"
  jury_deliberation_history :: "string list"
  jury_votes :: "string \<rightharpoonup> string"
  final_verdict :: "verdict option"
  error_message :: "string option"
  agents_status :: "string \<rightharpoonup> string"

definition idle_session :: courtroomSessionState where
  "idle_session = \<lparr> court_status = ''IDLE'', current_turn_agent = None, transcript = [],
     jury_deliberation_history = [], jury_votes = Map.empty, final_verdict = None,
     error_message = None, agents_status = Map.empty \<rparr>"

text \<open>A case record of the ledger mirror: an object, as a map from field names.\<close>

type_synonym case_record = "string \<rightharpoonup> jsvalue"

text \<open>The body of a call of \<^verbatim>\<open>fetch\<close>.\<close>

record flag_post_body =
  body_postContent :: string
  body_victimInfo :: string
  body_userId :: string
  body_postLink :: string
  body_victimEthAddress :: string

datatype request =
    FlagPost flag_post_body
  | StartCourtroomSession string
  | GetCourtroomUpdates string

text \<open>
  The program state: the fields of \<^verbatim>\<open>appState\<close>, the module variables \<^verbatim>\<open>userId\<close> and
  \<^verbatim>\<open>courtroomPollingInterval\<close>, the part of the document the handlers read or toggle
  (form values, \<^verbatim>\<open>hidden\<close> and \<^verbatim>\<open>processing\<close> classes, \<^verbatim>\<open>disabled\<close> flags), and the
  host: the next interval handle and the requests sent with \<^verbatim>\<open>fetch\<close> so far.

  The text and the inner HTML the render functions write into display nodes are a
  projection of \<^verbatim>\<open>appState\<close> that no handler reads back; they are not modelled, so
  \<^verbatim>\<open>renderLog\<close>, \<^verbatim>\<open>renderStatus\<close>, \<^verbatim>\<open>renderUserId\<close> and \<^verbatim>\<open>renderCasesTable\<close> change
  nothing here.

  \<^verbatim>\<open>courtroomPollingInterval\<close> is the only reference to the interval, and the script
  calls \<^verbatim>\<open>clearInterval\<close> on it whenever it overwrites it: the interval registered with
  the host is the one this variable holds.
\<close>

record world =
  postContent :: string
  postLink :: string
  victimInfo :: string
  victimEthAddress :: string
  status :: string
  log :: "string list"
  isProcessing :: bool
  cases :: "case_record list"
  error :: "string option"
  showCourtroom :: bool
  currentCaseIdForCourtroom :: "string option"
  courtroomSessionState :: courtroomSessionState
  userId :: "string option"
  courtroomPollingInterval :: "nat option"
  postContentInput_value :: string
  postLinkInput_value :: string
  victimInfoInput_value :: string
  victimEthAddressInput_value :: string
  flagPostButton_disabled :: bool
  flagPostButton_processing :: bool
  buttonTextSpan_hidden :: bool
  buttonSpinnerSpan_hidden :: bool
  errorDisplay_hidden :: bool
  mainContentArea_hidden :: bool
  courtroomSessionArea_hidden :: bool
  finalVerdictDisplay_hidden :: bool
  startCourtroomButton_hidden :: bool
  startCourtroomButton_disabled :: bool
  resetCourtroomButton_hidden :: bool
  next_interval_handle :: nat
  requests :: "request list"

definition FASTAPI_BACKEND_URL :: string where
  "FASTAPI_BACKEND_URL = ''http://127.0.0.1:8000''"

text \<open>The state when the script has loaded, with the classes of the popup's markup.\<close>

definition initial_world :: world where
  "initial_world = \<lparr> postContent = [], postLink = [], victimInfo = [], victimEthAddress = [],
     status = ''Idle'', log = [], isProcessing = False, cases = [], error = Some [],
     showCourtroom = False, currentCaseIdForCourtroom = None,
     courtroomSessionState = idle_session, userId = None, courtroomPollingInterval = None,
     postContentInput_value = [], postLinkInput_value = [], victimInfoInput_value = [],
     victimEthAddressInput_value = [], flagPostButton_disabled = False,
     flagPostButton_processing = False, buttonTextSpan_hidden = False,
     buttonSpinnerSpan_hidden = True, errorDisplay_hidden = True,
     mainContentArea_hidden = False, courtroomSessionArea_hidden = True,
     finalVerdictDisplay_hidden = True, startCourtroomButton_hidden = False,
     startCourtroomButton_disabled = False, resetCourtroomButton_hidden = True,
     next_interval_handle = 1, requests = [] \<rparr>"

subsection \<open>Utility and render functions\<close>

text \<open>
  \<open>now\<close> is \<^verbatim>\<open>new Date().toLocaleTimeString()\<close> at the call; a handler is given one
  reading of the clock for all the entries it logs.
\<close>

definition addLog :: "string \<Rightarrow> string \<Rightarrow> world \<Rightarrow> world" where
  "addLog now msg w = w\<lparr> log := log w @ [now @ '': '' @ msg] \<rparr>"

definition setError :: "string option \<Rightarrow> world \<Rightarrow> world" where
  "setError msg w = w\<lparr> error := msg, errorDisplay_hidden := \<not> truthy msg \<rparr>"

definition setStatus :: "string \<Rightarrow> world \<Rightarrow> world" where
  "setStatus msg w = w\<lparr> status := msg \<rparr>"

definition updateProcessingState :: "bool \<Rightarrow> world \<Rightarrow> world" where
  "updateProcessingState b w =
     w\<lparr> isProcessing := b, flagPostButton_disabled := b, flagPostButton_processing := b,
        buttonTextSpan_hidden := b, buttonSpinnerSpan_hidden := \<not> b \<rparr>"

definition startCourtroomPolling :: "string \<Rightarrow> world \<Rightarrow> world" where
  "startCourtroomPolling now w =
     addLog now ''Started polling for courtroom updates.''
       (w\<lparr> courtroomPollingInterval := Some (next_interval_handle w),
           next_interval_handle := Suc (next_interval_handle w) \<rparr>)"

definition terminal_status :: "string \<Rightarrow> bool" where
  "terminal_status st \<longleftrightarrow> st = ''COMPLETED'' \<or> st = ''ERROR''"

definition renderCourtroomSessionState :: "string \<Rightarrow> world \<Rightarrow> world" where
  "renderCourtroomSessionState now w =
     (let state = courtroomSessionState w;
          w1 = (if final_verdict state \<noteq> None
                then w\<lparr> finalVerdictDisplay_hidden := False,
                        startCourtroomButton_hidden := True,
                        resetCourtroomButton_hidden := False \<rparr>
                else if court_status state = ''IDLE''
                then w\<lparr> finalVerdictDisplay_hidden := True,
                        startCourtroomButton_hidden := False,
                        resetCourtroomButton_hidden := True \<rparr>
                else w\<lparr> finalVerdictDisplay_hidden := True \<rparr>);
          w2 = (if court_status state = ''COMPLETED'' \<or> court_status state = ''ERROR''
                then w1\<lparr> startCourtroomButton_hidden := True,
                         resetCourtroomButton_hidden := False,
                         courtroomPollingInterval := None \<rparr>
                else if court_status state = ''IDLE''
                then w1\<lparr> startCourtroomButton_hidden := False,
                         resetCourtroomButton_hidden := True \<rparr>
                else w1\<lparr> startCourtroomButton_hidden := True,
                         resetCourtroomButton_hidden := True \<rparr>)
      in if showCourtroom w2
            \<and> (court_status state \<noteq> ''COMPLETED'' \<and> court_status state \<noteq> ''ERROR'')
            \<and> courtroomPollingInterval w2 = None
         then startCourtroomPolling now w2
         else w2)"

definition renderAppUI :: "string \<Rightarrow> world \<Rightarrow> world" where
  "renderAppUI now w =
     (if showCourtroom w
      then renderCourtroomSessionState now
             (w\<lparr> mainContentArea_hidden := True, courtroomSessionArea_hidden := False \<rparr>)
      else w\<lparr> mainContentArea_hidden := False, courtroomSessionArea_hidden := True \<rparr>)"

subsection \<open>The ledger mirror\<close>

text \<open>
  A document of the collection has an id and its data.  The listener builds
  \<^verbatim>\<open>{ id: doc.id, ...doc.data() }\<close>: the data's fields, with \<open>id\<close> set to the document id
  unless the data has a field \<open>id\<close> of its own.
\<close>

type_synonym doc = "string \<times> (string \<rightharpoonup> jsvalue)"

definition case_of_doc :: "doc \<Rightarrow> case_record" where
  "case_of_doc d = [''id'' \<mapsto> JString (fst d)] ++ snd d"

text \<open>The success callback of \<^verbatim>\<open>onSnapshot\<close>, called with the documents of a snapshot.\<close>

definition onSnapshot_next :: "string \<Rightarrow> doc list \<Rightarrow> world \<Rightarrow> world" where
  "onSnapshot_next now docs w =
     (if \<not> truthy (userId w) then w
      else let fetchedCases = map case_of_doc docs in
           addLog now (''Updated public ledger with '' @ string_of_nat (length fetchedCases)
                         @ '' cases.'')
             (w\<lparr> cases := fetchedCases \<rparr>))"

definition onSnapshot_error :: "string \<Rightarrow> string \<Rightarrow> world \<Rightarrow> world" where
  "onSnapshot_error now err_message w =
     addLog now (''Firestore Snapshot Error: '' @ err_message)
       (setError (Some (''Firestore Snapshot Error: '' @ err_message)) w)"

subsection \<open>Flagging a post\<close>

text \<open>
  What the backend answers to \<^verbatim>\<open>POST /flag_post\<close>.  \<open>FlagThrown m\<close>: \<^verbatim>\<open>fetch\<close> or
  \<^verbatim>\<open>response.json()\<close> rejected with an error of message \<open>m\<close>.  \<open>FlagResponse ok st d\<close>:
  a response with \<^verbatim>\<open>response.ok\<close>, the decimal text of \<^verbatim>\<open>response.status\<close> and the parsed
  body; \<open>fr_json\<close> is \<^verbatim>\<open>JSON.stringify(data)\<close>, and \<open>fr_case_details\<close> is \<open>None\<close> when the
  body has no \<^verbatim>\<open>case_details\<close>, else the \<^verbatim>\<open>status\<close> of the case details.
\<close>

record flag_data =
  fr_detail :: "string option"
  fr_message :: "string option"
  fr_case_id :: "string option"
  fr_case_details :: "string option option"
  fr_json :: string

datatype flag_outcome =
    FlagThrown string
  | FlagResponse bool string flag_data

text \<open>
  The checks at the head of \<^verbatim>\<open>handleFlagPost\<close>, on the trimmed form values: the message
  of the first check that fails, or \<open>None\<close>.
\<close>

definition flag_validation :: "string \<Rightarrow> string \<Rightarrow> string \<Rightarrow> string option \<Rightarrow> string option" where
  "flag_validation pContent vInfo vEthAddress uid =
     (if pContent = [] then Some ''Please enter the post content.''
      else if vInfo = [] then Some ''Please enter victim information.''
      else if vEthAddress \<noteq> [] \<and> \<not> address_regex_test vEthAddress
        then Some ''Please enter a valid Ethereum/Polygon address (starts with 0x and is 42 characters long).''
      else if \<not> truthy uid then Some ''Authentication not ready. Please wait a moment or refresh.''
      else if FASTAPI_BACKEND_URL = [] then Some ''Backend URL is not defined.''
      else None)"

text \<open>The \<^verbatim>\<open>try\<close> block after the response has arrived: \<open>Inl m\<close> is a thrown error.\<close>

definition flag_try :: "string \<Rightarrow> flag_outcome \<Rightarrow> world \<Rightarrow> string + world" where
  "flag_try now r w =
     (case r of
        FlagThrown m \<Rightarrow> Inl m
      | FlagResponse ok st d \<Rightarrow>
          if \<not> ok
          then Inl (or_else (fr_detail d)
                      (''Backend responded with status '' @ st @ '': '' @ fr_json d))
          else
            let w1 = addLog now (''Initial Analysis Backend Response: '' @ fr_json d) w;
                w2 = setStatus (or_else (fr_message d) ''Initial analysis complete.'') w1
            in if fr_case_details d \<noteq> None
                  \<and> fr_case_details d \<noteq> Some (Some ''Case Closed - No Violation'')
               then
                 let w3 = w2\<lparr> currentCaseIdForCourtroom := fr_case_id d, showCourtroom := True \<rparr>;
                     w4 = setStatus ''Violation detected. Courtroom session commencing!'' w3;
                     w5 = addLog now (''Violation detected, showing courtroom for case: ''
                                        @ to_text (fr_case_id d)) w4
                 in Inr (renderAppUI now w5)
               else
                 Inr (addLog now ''No violation detected. Case closed.''
                        (setStatus ''No violation detected. Case closed.'' w2)))"

definition flag_catch :: "string \<Rightarrow> string \<Rightarrow> world \<Rightarrow> world" where
  "flag_catch now m w =
     setStatus ''Error during initial processing.''
       (addLog now (''Error during initial processing: '' @ m)
          (setError (Some (''Error during initial processing: '' @ m)) w))"

definition flag_finally :: "world \<Rightarrow> world" where
  "flag_finally w =
     (updateProcessingState False w)
       \<lparr> postContentInput_value := [], postLinkInput_value := [], victimInfoInput_value := [] \<rparr>"

text \<open>
  The writes of \<^verbatim>\<open>handleFlagPost\<close> between the checks and \<^verbatim>\<open>await fetch\<close>, and the
  request itself.
\<close>

definition flag_send :: "string \<Rightarrow> flag_post_body \<Rightarrow> world \<Rightarrow> world" where
  "flag_send now body w =
     (let w1 = updateProcessingState True w;
          w2 = w1\<lparr> log := [] \<rparr>;
          w3 = setError (Some []) w2;
          w4 = setStatus ''Initiating initial analysis via FastAPI backend...'' w3;
          w5 = addLog now ''Sending flag post request to backend...'' w4
      in w5\<lparr> requests := requests w5 @ [FlagPost body] \<rparr>)"

text \<open>
  \<^verbatim>\<open>handleFlagPost\<close>, with the answer of the backend as an argument (read only when a
  request is sent).  The part before \<^verbatim>\<open>await fetch\<close> and the part after it run as one
  step.  \<^verbatim>\<open>catch\<close> runs on the state as \<^verbatim>\<open>fetch\<close> found it: the \<^verbatim>\<open>try\<close> block throws
  only before its first write.
\<close>

definition handleFlagPost :: "string \<Rightarrow> flag_outcome \<Rightarrow> world \<Rightarrow> world" where
  "handleFlagPost now r w =
     (let pContent = trim (postContentInput_value w);
          pLink = trim (postLinkInput_value w);
          vInfo = trim (victimInfoInput_value w);
          vEthAddress = trim (victimEthAddressInput_value w)
      in case flag_validation pContent vInfo vEthAddress (userId w) of
           Some msg \<Rightarrow> setError (Some msg) w
         | None \<Rightarrow>
             let w6 = flag_send now
                        \<lparr> body_postContent = pContent, body_victimInfo = vInfo,
                          body_userId = to_text (userId w), body_postLink = pLink,
                          body_victimEthAddress = vEthAddress \<rparr> w
             in flag_finally
                  (case flag_try now r w6 of
                     Inr w7 \<Rightarrow> w7
                   | Inl m \<Rightarrow> flag_catch now m w6))"

subsection \<open>The courtroom session\<close>

text \<open>
  What the backend answers to \<^verbatim>\<open>POST /start_courtroom_session\<close>: a 2xx response with
  its \<^verbatim>\<open>message\<close>, another response with its \<^verbatim>\<open>detail\<close>, or a rejected \<^verbatim>\<open>fetch\<close>.
\<close>

datatype start_outcome =
    StartOk "string option"
  | StartRejected "string option"
  | StartThrown string

definition start_failed :: "string \<Rightarrow> string \<Rightarrow> world \<Rightarrow> world" where
  "start_failed now m w =
     (let w1 = setError (Some (''Error starting courtroom session: '' @ m)) w;
          w2 = addLog now (''Error starting courtroom session: '' @ m) w1;
          w3 = w2\<lparr> courtroomSessionState :=
                    (courtroomSessionState w2)\<lparr> court_status := ''ERROR'',
                                                 error_message := Some m \<rparr> \<rparr>
      in renderCourtroomSessionState now w3)"

definition startCourtroomSession :: "string \<Rightarrow> start_outcome \<Rightarrow> world \<Rightarrow> world" where
  "startCourtroomSession now r w =
     (if \<not> truthy (currentCaseIdForCourtroom w)
      then setError (Some ''No case selected to start courtroom session.'') w
      else
        let cid = the (currentCaseIdForCourtroom w);
            w1 = setStatus ''Starting courtroom session...'' w;
            w2 = addLog now (''Requesting backend to start courtroom for Case ID: '' @ cid) w1;
            w3 = w2\<lparr> startCourtroomButton_disabled := True,
                      requests := requests w2 @ [StartCourtroomSession cid] \<rparr>;
            w4 = (case r of
                    StartOk m \<Rightarrow>
                      let a = addLog now (''Backend response: '' @ to_text m) w3;
                          b = setStatus ''Courtroom session initialized on backend. Awaiting updates...'' a;
                          c = b\<lparr> courtroomSessionState :=
                                   (courtroomSessionState b)\<lparr> court_status := ''STARTING'' \<rparr> \<rparr>
                      in startCourtroomPolling now (renderCourtroomSessionState now c)
                  | StartRejected detail \<Rightarrow>
                      start_failed now
                        (or_else detail ''Failed to start courtroom session on backend.'') w3
                  | StartThrown m \<Rightarrow> start_failed now m w3)
        in w4\<lparr> startCourtroomButton_disabled := False \<rparr>)"

text \<open>
  What the backend answers to \<^verbatim>\<open>GET /get_courtroom_updates\<close>: a 2xx response with a
  snapshot, another response with its \<^verbatim>\<open>detail\<close>, or a rejected \<^verbatim>\<open>fetch\<close> or
  \<^verbatim>\<open>response.json()\<close> with the error's message.
\<close>

datatype poll_outcome =
    PollSnapshot courtroomSessionState
  | PollRejected "string option"
  | PollThrown string

definition poll_failed :: "string \<Rightarrow> world \<Rightarrow> world" where
  "poll_failed m w =
     (let w1 = w\<lparr> courtroomPollingInterval := None \<rparr>
      in w1\<lparr> courtroomSessionState :=
               (courtroomSessionState w1)\<lparr> court_status := ''ERROR'',
                                            error_message := Some m \<rparr> \<rparr>)"

text \<open>
  \<^verbatim>\<open>fetchCourtroomUpdates\<close> after \<^verbatim>\<open>await\<close>: the response is handled with the case
  identifier read before the request was sent.
\<close>

definition fetchCourtroomUpdates_resume ::
  "string \<Rightarrow> string \<Rightarrow> poll_outcome \<Rightarrow> world \<Rightarrow> world" where
  "fetchCourtroomUpdates_resume cid now r w =
     (case r of
        PollSnapshot d \<Rightarrow>
          let w1 = renderCourtroomSessionState now (w\<lparr> courtroomSessionState := d \<rparr>)
          in if court_status d = ''COMPLETED'' \<or> court_status d = ''ERROR''
             then setStatus (''Courtroom session concluded: '' @ court_status d)
                    (addLog now (''Courtroom session for '' @ cid @ '' ended with status: ''
                                   @ court_status d)
                       (w1\<lparr> courtroomPollingInterval := None \<rparr>))
             else w1
      | PollRejected detail \<Rightarrow>
          renderCourtroomSessionState now
            (poll_failed (or_else detail ''Failed to fetch updates.'')
               (addLog now (''Failed to fetch courtroom updates: '' @ or_else detail ''Unknown error'')
                  (setError (Some (or_else detail ''Failed to fetch courtroom updates.'')) w)))
      | PollThrown m \<Rightarrow>
          renderCourtroomSessionState now
            (poll_failed m
               (addLog now (''Network error fetching courtroom updates: '' @ m)
                  (setError (Some (''Network error fetching courtroom updates: '' @ m)) w))))"

text \<open>
  \<^verbatim>\<open>fetchCourtroomUpdates\<close>, with the answer of the backend as an argument (read only
  when a request is sent); request and response are one step.
\<close>

definition fetchCourtroomUpdates :: "string \<Rightarrow> poll_outcome \<Rightarrow> world \<Rightarrow> world" where
  "fetchCourtroomUpdates now r w =
     (if \<not> truthy (currentCaseIdForCourtroom w) then w
      else
        let cid = the (currentCaseIdForCourtroom w)
        in fetchCourtroomUpdates_resume cid now r
             (w\<lparr> requests := requests w @ [GetCourtroomUpdates cid] \<rparr>))"

text \<open>
  A tick of the host's timer: the callback given to \<^verbatim>\<open>setInterval\<close> runs when the
  interval is registered, and nothing runs after \<^verbatim>\<open>clearInterval\<close>.  Here the tick
  comes with its reading of the clock and the answer of the backend, and the answer is
  handled before anything else happens: a poll that is answered at once.
\<close>

definition timer_tick :: "string \<Rightarrow> poll_outcome \<Rightarrow> world \<Rightarrow> world" where
  "timer_tick now r w =
     (if courtroomPollingInterval w = None then w else fetchCourtroomUpdates now r w)"

definition resetCourtroomSessionView :: "string \<Rightarrow> world \<Rightarrow> world" where
  "resetCourtroomSessionView now w =
     (let w1 = w\<lparr> courtroomPollingInterval := None, showCourtroom := False,
                  currentCaseIdForCourtroom := None, courtroomSessionState := idle_session \<rparr>;
          w2 = setError None w1;
          w3 = setStatus ''Idle'' w2;
          w4 = renderAppUI now w3;
          w5 = renderCourtroomSessionState now w4
      in addLog now ''Courtroom session view reset.'' w5)"

text \<open>The number of polling requests among the requests sent.\<close>

definition is_poll :: "request \<Rightarrow> bool" where
  "is_poll q = (case q of GetCourtroomUpdates _ \<Rightarrow> True | _ \<Rightarrow> False)"

definition polls_sent :: "world \<Rightarrow> nat" where
  "polls_sent w = length (filter is_poll (requests w))"

text \<open>
  \<^verbatim>\<open>fetchCourtroomUpdates\<close> up to \<^verbatim>\<open>await fetch\<close>: the request is sent with the case
  identifier read at that moment, and the function suspends; \<open>None\<close> when no case is bound
  and the function has returned.  \<^verbatim>\<open>setInterval\<close> does not wait for the answer: the timer
  fires again while the request is in flight.
\<close>

definition fetchCourtroomUpdates_send :: "world \<Rightarrow> world \<times> string option" where
  "fetchCourtroomUpdates_send w =
     (if \<not> truthy (currentCaseIdForCourtroom w) then (w, None)
      else
        let cid = the (currentCaseIdForCourtroom w)
        in (w\<lparr> requests := requests w @ [GetCourtroomUpdates cid] \<rparr>, Some cid))"







text \<open>
  The verdict panel mirrors the session state: it is hidden exactly when the state holds
  no verdict.  This is how \<^verbatim>\<open>renderCourtroomSessionState\<close> leaves the panel.
\<close>

definition verdict_panel_rendered :: "world \<Rightarrow> bool" where
  "verdict_panel_rendered w \<longleftrightarrow>
     (finalVerdictDisplay_hidden w \<longleftrightarrow> final_verdict (courtroomSessionState w) = None)"

subsection \<open>A session of the popup\<close>

text \<open>
  The user is signed in, has typed a post and the victim's name, and flags the post; the
  backend reports a violation for case \<open>c1\<close>, and the popup shows the courtroom.  Then
  the backend answers a poll with a snapshot that carries a verdict while the session is
  still deliberating, and the next poll fails.  \<open>example_S1\<close> and \<open>example_S2\<close> are two
  snapshots of the ledger collection.
\<close>

definition example_form :: world where
  "example_form = initial_world\<lparr> userId := Some ''u1'',
     postContentInput_value := ''you are worthless'', victimInfoInput_value := '' alice '' \<rparr>"

definition example_flagged :: flag_outcome where
  "example_flagged = FlagResponse True ''200''
     \<lparr> fr_detail = None, fr_message = None, fr_case_id = Some ''c1'',
       fr_case_details = Some (Some ''Under Review''),
       fr_json = ''{case_id: c1, case_details: {status: Under Review}}'' \<rparr>"

definition example_S1 :: "doc list" where
  "example_S1 = [(''a'', [''status'' \<mapsto> JString ''Under Review'']),
                 (''b'', [''status'' \<mapsto> JString ''Case Closed - No Violation'']),
                 (''c'', Map.empty)]"

definition example_S2 :: "doc list" where
  "example_S2 = [(''d'', [''socialScore'' \<mapsto> JNumber 0])]"

definition example_courtroom :: world where
  "example_courtroom = handleFlagPost ''10:15:00'' example_flagged example_form"

definition example_early_verdict :: courtroomSessionState where
  "example_early_verdict = idle_session\<lparr> court_status := ''JURY_DELIBERATION'',
     final_verdict := Some \<lparr> verdict_type = ''Guilty'', final_fine_eth = 0,
       final_ban_status = ''Temporary'', explanation = ''insult'', final_compensation_eth = 0,
       social_score = 0, social_score_explanation = ''first offence'' \<rparr> \<rparr>"

definition example_completed :: courtroomSessionState where
  "example_completed = example_early_verdict\<lparr> court_status := ''COMPLETED'' \<rparr>"

definition example_after_early_verdict :: world where
  "example_after_early_verdict =
     timer_tick ''10:15:03'' (PollSnapshot example_early_verdict) example_courtroom"

definition example_after_failure :: world where
  "example_after_failure =
     timer_tick ''10:15:06'' (PollThrown ''Failed to fetch'') example_after_early_verdict"





section \<open>The ledger contract (blockchain/contracts/CyberLawLedger.sol)\<close>

text \<open>
  Solidity's \<^verbatim>\<open>uint256\<close> is a 256-bit word and \<^verbatim>\<open>address\<close> a 160-bit word.
  The contract's ether balance is a natural number.  A failed \<^verbatim>\<open>require\<close> reverts
  the transaction: the operation returns \<open>Inl\<close> with the revert message and the
  storage stays as it was.
\<close>

type_synonym uint256 = "256 word"
type_synonym address = "160 word"

record Case =
  caseId :: string
  postHash :: string
  victimAddress :: address
  violationType :: string
  councilDecision :: string
  penaltyAmountWei :: uint256
  banStatus :: string
  decisionExplanation :: string
  compensationToVictimWei :: uint256
  socialScore :: uint256
  fineCollected :: bool
  compensationDistributed :: bool
  timestamp :: uint256

datatype event =
    CaseRecorded string address uint256 uint256 uint256
  | FineCollected string uint256
  | CompensationDistributed string address uint256

text \<open>
  The storage of the contract: the mapping \<^verbatim>\<open>cases\<close> (named \<open>cases_storage\<close> here, the
  popup script has a field \<open>cases\<close> of its own), the array \<^verbatim>\<open>caseIds\<close>, the balance and
  the events emitted so far.  A key that was never written maps to the all-zero struct.
\<close>

record ledger =
  cases_storage :: "string \<Rightarrow> Case"
  caseIds :: "string list"
  balance :: nat
  events :: "event list"

definition zero_Case :: Case where
  "zero_Case = \<lparr> caseId = [], postHash = [], victimAddress = 0, violationType = [],
     councilDecision = [], penaltyAmountWei = 0, banStatus = [], decisionExplanation = [],
     compensationToVictimWei = 0, socialScore = 0, fineCollected = False,
     compensationDistributed = False, timestamp = 0 \<rparr>"

definition deployed :: ledger where
  "deployed = \<lparr> cases_storage = (\<lambda>_. zero_Case), caseIds = [], balance = 0, events = [] \<rparr>"

text \<open>\<^verbatim>\<open>recordCase\<close>; \<open>block_timestamp\<close> is \<^verbatim>\<open>block.timestamp\<close> of the transaction.\<close>

definition recordCase ::
  "string \<Rightarrow> string \<Rightarrow> address \<Rightarrow> string \<Rightarrow> string \<Rightarrow> uint256 \<Rightarrow> string \<Rightarrow> string \<Rightarrow>
   uint256 \<Rightarrow> uint256 \<Rightarrow> uint256 \<Rightarrow> ledger \<Rightarrow> string + ledger" where
  "recordCase cid phash victim vtype decision penalty ban expl compensation score block_timestamp s =
     (if timestamp (cases_storage s cid) \<noteq> 0 then Inl ''Case with this ID already exists.''
      else Inr (s\<lparr> cases_storage := (cases_storage s)(cid :=
                      \<lparr> caseId = cid, postHash = phash, victimAddress = victim,
                        violationType = vtype, councilDecision = decision,
                        penaltyAmountWei = penalty, banStatus = ban,
                        decisionExplanation = expl, compensationToVictimWei = compensation,
                        socialScore = score, fineCollected = False,
                        compensationDistributed = False, timestamp = block_timestamp \<rparr>),
                    caseIds := caseIds s @ [cid],
                    events := events s @ [CaseRecorded cid victim penalty compensation score] \<rparr>))"

text \<open>
  \<^verbatim>\<open>payFine\<close> is payable: \<open>msg_value\<close> is credited to the balance when the call is
  not reverted.
\<close>

definition payFine :: "string \<Rightarrow> uint256 \<Rightarrow> ledger \<Rightarrow> string + ledger" where
  "payFine cid msg_value s =
     (let currentCase = cases_storage s cid in
      if timestamp currentCase = 0 then Inl ''Case does not exist.''
      else if fineCollected currentCase then Inl ''Fine already collected for this case.''
      else if msg_value < penaltyAmountWei currentCase
        then Inl ''Sent amount is less than the required penalty.''
      else Inr (s\<lparr> cases_storage := (cases_storage s)(cid := currentCase\<lparr> fineCollected := True \<rparr>),
                    balance := balance s + unat msg_value,
                    events := events s @ [FineCollected cid msg_value] \<rparr>))"

text \<open>
  \<^verbatim>\<open>distributeCompensation\<close> in three parts: the four \<^verbatim>\<open>require\<close>s before the
  transfer, the transfer itself, and the writes after it.  The transfer is a low-level
  \<^verbatim>\<open>call\<close> that hands control to the victim's address; \<open>callee\<close> is what that address
  does with the contract in the state it is called in: whether the call succeeds, and the
  storage it leaves behind (it may call back into the contract).  \<^verbatim>\<open>currentCase\<close> is a
  storage pointer, so the writes and the event after the call read the storage as the
  callee left it.
\<close>

definition distribute_requires :: "string \<Rightarrow> ledger \<Rightarrow> string option" where
  "distribute_requires cid s =
     (let currentCase = cases_storage s cid in
      if timestamp currentCase = 0 then Some ''Case does not exist.''
      else if \<not> fineCollected currentCase
        then Some ''Fine not yet collected to distribute compensation.''
      else if compensationDistributed currentCase
        then Some ''Compensation already distributed for this case.''
      else if balance s < unat (compensationToVictimWei currentCase)
        then Some ''Contract has insufficient balance for compensation.''
      else None)"

definition distribute_transfer :: "string \<Rightarrow> ledger \<Rightarrow> ledger" where
  "distribute_transfer cid s =
     s\<lparr> balance := balance s - unat (compensationToVictimWei (cases_storage s cid)) \<rparr>"

definition distribute_finish :: "string \<Rightarrow> ledger \<Rightarrow> ledger" where
  "distribute_finish cid s =
     (let currentCase = cases_storage s cid in
      s\<lparr> cases_storage := (cases_storage s)(cid := currentCase\<lparr> compensationDistributed := True \<rparr>),
         events := events s @ [CompensationDistributed cid (victimAddress currentCase)
                                 (compensationToVictimWei currentCase)] \<rparr>)"

definition distributeCompensation ::
  "string \<Rightarrow> (ledger \<Rightarrow> bool \<times> ledger) \<Rightarrow> ledger \<Rightarrow> string + ledger" where
  "distributeCompensation cid callee s =
     (case distribute_requires cid s of
        Some msg \<Rightarrow> Inl msg
      | None \<Rightarrow>
          (case callee (distribute_transfer cid s) of
             (success, s1) \<Rightarrow>
               if \<not> success then Inl ''Failed to send compensation to victim.''
               else Inr (distribute_finish cid s1)))"

text \<open>
  The states the contract can be in, starting from \<open>s\<close>: any sequence of successful calls
  of the three state-changing functions, by any sender, with any arguments.  What the
  victim's address does during the transfer is again such a sequence, starting from the
  state at the transfer.
\<close>

inductive reaches :: "ledger \<Rightarrow> ledger \<Rightarrow> bool" where
  reaches_refl: "reaches s s"
| reaches_recordCase:
    "reaches s s1 \<Longrightarrow>
     recordCase cid phash victim vtype decision penalty ban expl compensation score now s1 = Inr s2 \<Longrightarrow>
     reaches s s2"
| reaches_payFine:
    "reaches s s1 \<Longrightarrow> payFine cid msg_value s1 = Inr s2 \<Longrightarrow> reaches s s2"
| reaches_distributeCompensation:
    "reaches s s1 \<Longrightarrow>
     reaches (distribute_transfer cid s1) (snd (callee (distribute_transfer cid s1))) \<Longrightarrow>
     distributeCompensation cid callee s1 = Inr s2 \<Longrightarrow>
     reaches s s2"

definition ledger_inv :: "ledger \<Rightarrow> bool" where
  "ledger_inv s \<longleftrightarrow>
     (\<forall>cid. compensationDistributed (cases_storage s cid) \<longrightarrow> fineCollected (cases_storage s cid))"

text \<open>
  A run of the contract: a case is recorded with a penalty of 100 wei and a compensation
  of 40 wei, the fine is paid, and the compensation is sent to a victim that accepts it
  and does nothing else.
\<close>

definition example_recorded :: ledger where
  "example_recorded =
     projr (recordCase ''c1'' ''9f2a'' 7 ''Defamation'' ''Guilty'' 100 ''Temporary'' ''insult''
              40 35 1700000000 deployed)"

definition example_paid :: ledger where
  "example_paid = projr (payFine ''c1'' 100 example_recorded)"

definition example_distributed :: ledger where
  "example_distributed =
     projr (distributeCompensation ''c1'' (\<lambda>t. (True, t)) example_paid)"

section \<open>Properties of the popup script\<close>

subsection \<open>The address pattern\<close>

lemma hex_class_iff: "hex_class c \<longleftrightarrow> c \<in> set ''0123456789abcdefABCDEF''"
proof
  assume "hex_class c"
  then have "(of_char c :: nat) \<in> {97,98,99,100,101,102,65,66,67,68,69,70,48,49,50,51,52,53,54,55,56,57}"
    unfolding hex_class_def Let_def by (simp; arith)
  then have "(of_char c :: nat) \<in> of_char ` set ''0123456789abcdefABCDEF''"
    by (simp; blast)
  then obtain x where "x \<in> set ''0123456789abcdefABCDEF''" and "(of_char c :: nat) = of_char x"
    by blast
  then show "c \<in> set ''0123456789abcdefABCDEF''"
    by (simp only: of_char_eq_iff)
next
  assume "c \<in> set ''0123456789abcdefABCDEF''"
  then show "hex_class c" by (auto simp: hex_class_def)
qed

lemma repeat_class_Some:
  "repeat_class p n s = Some r \<longleftrightarrow> (\<exists>h. s = h @ r \<and> length h = n \<and> (\<forall>c\<in>set h. p c))"
proof (induction p n s rule: repeat_class.induct)
  case (1 p s) show ?case by auto
next
  case (2 p n) show ?case by auto
next
  case (3 p n c s)
  show ?case
  proof (cases "p c")
    case True
    with 3 show ?thesis by (auto simp: Cons_eq_append_conv length_Suc_conv) 
  next
    case False
    then show ?thesis by (auto simp: Cons_eq_append_conv length_Suc_conv)
  qed
qed


lemma address_regex_test_iff: "address_regex_test s \<longleftrightarrow> spec_address_pattern s"
proof
  assume "address_regex_test s"
  then obtain rest where s: "s = CHR ''0'' # CHR ''x'' # rest"
      and rep: "repeat_class hex_class 40 rest = Some []"
    by (auto simp: address_regex_test_def split: list.splits)
  from rep have "length rest = 40" and "\<forall>c\<in>set rest. hex_class c"
    by (auto simp: repeat_class_Some)
  show "spec_address_pattern s"
    unfolding spec_address_pattern_def
  proof (intro exI conjI)
    show "s = ''0x'' @ rest" using s by simp
    show "length rest = 40" by fact
    show "set rest \<subseteq> set ''0123456789abcdefABCDEF''"
      using \<open>\<forall>c\<in>set rest. hex_class c\<close> unfolding hex_class_iff by blast
  qed
next
  assume "spec_address_pattern s"
  then obtain h where s: "s = ''0x'' @ h" and len: "length h = 40"
      and hex: "set h \<subseteq> set ''0123456789abcdefABCDEF''"
    unfolding spec_address_pattern_def by blast
  from hex have "\<forall>c\<in>set h. hex_class c"
    unfolding hex_class_iff by blast
  with len have "repeat_class hex_class 40 h = Some []"
    unfolding repeat_class_Some by (intro exI [of _ h]) simp
  with s show "address_regex_test s"
    by (simp add: address_regex_test_def)
qed

subsection \<open>The render and utility functions\<close>

lemma addLog_simps [simp]:
  "log (addLog now msg w) = log w @ [now @ '': '' @ msg]"
  "requests (addLog now msg w) = requests w"
  "error (addLog now msg w) = error w"
  "courtroomPollingInterval (addLog now msg w) = courtroomPollingInterval w"
  "courtroomSessionState (addLog now msg w) = courtroomSessionState w"
  "currentCaseIdForCourtroom (addLog now msg w) = currentCaseIdForCourtroom w"
  "showCourtroom (addLog now msg w) = showCourtroom w"
  "userId (addLog now msg w) = userId w"
  "cases (addLog now msg w) = cases w"
  "finalVerdictDisplay_hidden (addLog now msg w) = finalVerdictDisplay_hidden w"
  "postContentInput_value (addLog now msg w) = postContentInput_value w"
  "postLinkInput_value (addLog now msg w) = postLinkInput_value w"
  "victimInfoInput_value (addLog now msg w) = victimInfoInput_value w"
  "victimEthAddressInput_value (addLog now msg w) = victimEthAddressInput_value w"
  by (simp_all add: addLog_def)

lemma setError_simps [simp]:
  "error (setError m w) = m"
  "log (setError m w) = log w"
  "requests (setError m w) = requests w"
  "courtroomPollingInterval (setError m w) = courtroomPollingInterval w"
  "courtroomSessionState (setError m w) = courtroomSessionState w"
  "currentCaseIdForCourtroom (setError m w) = currentCaseIdForCourtroom w"
  "showCourtroom (setError m w) = showCourtroom w"
  "userId (setError m w) = userId w"
  "finalVerdictDisplay_hidden (setError m w) = finalVerdictDisplay_hidden w"
  "postContentInput_value (setError m w) = postContentInput_value w"
  "postLinkInput_value (setError m w) = postLinkInput_value w"
  "victimInfoInput_value (setError m w) = victimInfoInput_value w"
  "victimEthAddressInput_value (setError m w) = victimEthAddressInput_value w"
  by (simp_all add: setError_def)

lemma setStatus_simps [simp]:
  "error (setStatus m w) = error w"
  "log (setStatus m w) = log w"
  "requests (setStatus m w) = requests w"
  "courtroomPollingInterval (setStatus m w) = courtroomPollingInterval w"
  "courtroomSessionState (setStatus m w) = courtroomSessionState w"
  "currentCaseIdForCourtroom (setStatus m w) = currentCaseIdForCourtroom w"
  "showCourtroom (setStatus m w) = showCourtroom w"
  "userId (setStatus m w) = userId w"
  "finalVerdictDisplay_hidden (setStatus m w) = finalVerdictDisplay_hidden w"
  "postContentInput_value (setStatus m w) = postContentInput_value w"
  "postLinkInput_value (setStatus m w) = postLinkInput_value w"
  "victimInfoInput_value (setStatus m w) = victimInfoInput_value w"
  "victimEthAddressInput_value (setStatus m w) = victimEthAddressInput_value w"
  by (simp_all add: setStatus_def)

lemma render_frame [simp]:
  "courtroomSessionState (renderCourtroomSessionState now w) = courtroomSessionState w"
  "requests (renderCourtroomSessionState now w) = requests w"
  "error (renderCourtroomSessionState now w) = error w"
  "currentCaseIdForCourtroom (renderCourtroomSessionState now w) = currentCaseIdForCourtroom w"
  "showCourtroom (renderCourtroomSessionState now w) = showCourtroom w"
  "userId (renderCourtroomSessionState now w) = userId w"
  "postContentInput_value (renderCourtroomSessionState now w) = postContentInput_value w"
  "postLinkInput_value (renderCourtroomSessionState now w) = postLinkInput_value w"
  "victimInfoInput_value (renderCourtroomSessionState now w) = victimInfoInput_value w"
  "victimEthAddressInput_value (renderCourtroomSessionState now w) = victimEthAddressInput_value w"
  by (simp_all add: renderCourtroomSessionState_def startCourtroomPolling_def Let_def)

lemma render_verdict_panel:
  "finalVerdictDisplay_hidden (renderCourtroomSessionState now w)
     \<longleftrightarrow> final_verdict (courtroomSessionState w) = None"
  by (simp add: renderCourtroomSessionState_def startCourtroomPolling_def Let_def addLog_def)

lemma render_interval:
  "courtroomPollingInterval (renderCourtroomSessionState now w) =
     (if terminal_status (court_status (courtroomSessionState w)) then None
      else if showCourtroom w \<and> courtroomPollingInterval w = None
           then Some (next_interval_handle w)
           else courtroomPollingInterval w)"
  by (auto simp: renderCourtroomSessionState_def startCourtroomPolling_def Let_def
        terminal_status_def)

lemma renderAppUI_frame [simp]:
  "courtroomSessionState (renderAppUI now w) = courtroomSessionState w"
  "requests (renderAppUI now w) = requests w"
  "error (renderAppUI now w) = error w"
  "currentCaseIdForCourtroom (renderAppUI now w) = currentCaseIdForCourtroom w"
  "showCourtroom (renderAppUI now w) = showCourtroom w"
  "userId (renderAppUI now w) = userId w"
  "postContentInput_value (renderAppUI now w) = postContentInput_value w"
  "postLinkInput_value (renderAppUI now w) = postLinkInput_value w"
  "victimInfoInput_value (renderAppUI now w) = victimInfoInput_value w"
  "victimEthAddressInput_value (renderAppUI now w) = victimEthAddressInput_value w"
  by (simp_all add: renderAppUI_def)

subsection \<open>Frame lemmas\<close>

text \<open>
  What each function leaves as it was, and what it writes.
\<close>

lemma updateProcessingState_simps [simp]:
  "error (updateProcessingState b w) = error w"
  "log (updateProcessingState b w) = log w"
  "requests (updateProcessingState b w) = requests w"
  "userId (updateProcessingState b w) = userId w"
  "postContentInput_value (updateProcessingState b w) = postContentInput_value w"
  "postLinkInput_value (updateProcessingState b w) = postLinkInput_value w"
  "victimInfoInput_value (updateProcessingState b w) = victimInfoInput_value w"
  "victimEthAddressInput_value (updateProcessingState b w) = victimEthAddressInput_value w"
  by (simp_all add: updateProcessingState_def)

lemma updateProcessingState_session [simp]:
  "courtroomPollingInterval (updateProcessingState b w) = courtroomPollingInterval w"
  "courtroomSessionState (updateProcessingState b w) = courtroomSessionState w"
  by (simp_all add: updateProcessingState_def)

lemma flag_send_simps [simp]:
  "requests (flag_send now body w) = requests w @ [FlagPost body]"
  "error (flag_send now body w) = Some []"
  "victimEthAddressInput_value (flag_send now body w) = victimEthAddressInput_value w"
  "courtroomPollingInterval (flag_send now body w) = courtroomPollingInterval w"
  "courtroomSessionState (flag_send now body w) = courtroomSessionState w"
  "showCourtroom (flag_send now body w) = showCourtroom w"
  "currentCaseIdForCourtroom (flag_send now body w) = currentCaseIdForCourtroom w"
  by (simp_all add: flag_send_def Let_def updateProcessingState_def)

lemma flag_try_frame:
  assumes "flag_try now r w = Inr w'"
  shows "victimEthAddressInput_value w' = victimEthAddressInput_value w"
    and "requests w' = requests w"
    and "error w' = error w"
  using assms
  by (auto simp: flag_try_def Let_def split: flag_outcome.splits if_splits)

lemma flag_catch_frame [simp]:
  "victimEthAddressInput_value (flag_catch now m w) = victimEthAddressInput_value w"
  "requests (flag_catch now m w) = requests w"
  "error (flag_catch now m w) = Some (''Error during initial processing: '' @ m)"
  by (simp_all add: flag_catch_def)

lemma flag_finally_simps [simp]:
  "postContentInput_value (flag_finally w) = []"
  "postLinkInput_value (flag_finally w) = []"
  "victimInfoInput_value (flag_finally w) = []"
  "victimEthAddressInput_value (flag_finally w) = victimEthAddressInput_value w"
  "requests (flag_finally w) = requests w"
  "error (flag_finally w) = error w"
  by (simp_all add: flag_finally_def)

lemma handleFlagPost_rejected:
  assumes "flag_validation (trim (postContentInput_value w)) (trim (victimInfoInput_value w))
             (trim (victimEthAddressInput_value w)) (userId w) = Some msg"
  shows "handleFlagPost now r w = setError (Some msg) w"
  using assms by (simp add: handleFlagPost_def Let_def)

lemma handleFlagPost_sent:
  assumes "flag_validation (trim (postContentInput_value w)) (trim (victimInfoInput_value w))
             (trim (victimEthAddressInput_value w)) (userId w) = None"
  shows "postContentInput_value (handleFlagPost now r w) = []"
    and "postLinkInput_value (handleFlagPost now r w) = []"
    and "victimInfoInput_value (handleFlagPost now r w) = []"
    and "victimEthAddressInput_value (handleFlagPost now r w) = victimEthAddressInput_value w"
    and "requests (handleFlagPost now r w) = requests w @
           [FlagPost \<lparr> body_postContent = trim (postContentInput_value w),
                       body_victimInfo = trim (victimInfoInput_value w),
                       body_userId = to_text (userId w),
                       body_postLink = trim (postLinkInput_value w),
                       body_victimEthAddress = trim (victimEthAddressInput_value w) \<rparr>]"
    and "error (handleFlagPost now r w) = Some []
         \<or> (\<exists>m. error (handleFlagPost now r w) = Some (''Error during initial processing: '' @ m))"
  using assms
  by (auto simp: handleFlagPost_def Let_def split: sum.splits dest: flag_try_frame)

lemma onSnapshot_next_userId [simp]: "userId (onSnapshot_next now docs w) = userId w"
  by (simp add: onSnapshot_next_def Let_def)

lemma poll_failed_simps [simp]:
  "courtroomPollingInterval (poll_failed m w) = None"
  "courtroomSessionState (poll_failed m w) =
     (courtroomSessionState w)\<lparr> court_status := ''ERROR'', error_message := Some m \<rparr>"
  "showCourtroom (poll_failed m w) = showCourtroom w"
  "error (poll_failed m w) = error w"
  "requests (poll_failed m w) = requests w"
  by (simp_all add: poll_failed_def Let_def)

lemma resume_snapshot:
  "courtroomSessionState (fetchCourtroomUpdates_resume cid now (PollSnapshot d) w) = d"
  "error (fetchCourtroomUpdates_resume cid now (PollSnapshot d) w) = error w"
  "requests (fetchCourtroomUpdates_resume cid now (PollSnapshot d) w) = requests w"
  "finalVerdictDisplay_hidden (fetchCourtroomUpdates_resume cid now (PollSnapshot d) w)
     \<longleftrightarrow> final_verdict d = None"
  by (simp_all add: fetchCourtroomUpdates_resume_def Let_def render_verdict_panel)

lemma resume_snapshot_frame:
  "currentCaseIdForCourtroom (fetchCourtroomUpdates_resume cid now (PollSnapshot d) w)
     = currentCaseIdForCourtroom w"
  "showCourtroom (fetchCourtroomUpdates_resume cid now (PollSnapshot d) w) = showCourtroom w"
  by (simp_all add: fetchCourtroomUpdates_resume_def Let_def)

lemma resume_snapshot_interval:
  "courtroomPollingInterval (fetchCourtroomUpdates_resume cid now (PollSnapshot d) w) =
     (if terminal_status (court_status d) then None
      else if showCourtroom w \<and> courtroomPollingInterval w = None
           then Some (next_interval_handle w)
           else courtroomPollingInterval w)"
  by (simp add: fetchCourtroomUpdates_resume_def Let_def render_interval terminal_status_def)

lemma reset_explicit:
  "resetCourtroomSessionView now w =
     w\<lparr> courtroomPollingInterval := None, showCourtroom := False,
        currentCaseIdForCourtroom := None, courtroomSessionState := idle_session,
        error := None, errorDisplay_hidden := True, status := ''Idle'',
        mainContentArea_hidden := False, courtroomSessionArea_hidden := True,
        finalVerdictDisplay_hidden := True, startCourtroomButton_hidden := False,
        resetCourtroomButton_hidden := True,
        log := log w @ [now @ '': Courtroom session view reset.''] \<rparr>"
  by (simp add: resetCourtroomSessionView_def Let_def setError_def setStatus_def renderAppUI_def
        renderCourtroomSessionState_def addLog_def idle_session_def truthy_def)

subsection \<open>Once the session is over\<close>



lemma fetchCourtroomUpdates_split:
  "fetchCourtroomUpdates now r w =
     (case fetchCourtroomUpdates_send w of
        (w', None) \<Rightarrow> w'
      | (w', Some cid) \<Rightarrow> fetchCourtroomUpdates_resume cid now r w')"
  by (simp add: fetchCourtroomUpdates_def fetchCourtroomUpdates_send_def Let_def)

lemma resume_requests [simp]:
  "requests (fetchCourtroomUpdates_resume cid now r w) = requests w"
  by (cases r) (simp_all add: fetchCourtroomUpdates_resume_def Let_def)




subsection \<open>The verdict panel\<close>

text \<open>
  The verdict panel mirrors the session state in the initial state and after every
  handler: each handler that writes the session state renders it before it returns.
\<close>

lemma verdict_panel_rendered_cong:
  assumes "finalVerdictDisplay_hidden w' = finalVerdictDisplay_hidden w"
    and "courtroomSessionState w' = courtroomSessionState w"
  shows "verdict_panel_rendered w' = verdict_panel_rendered w"
  using assms by (simp add: verdict_panel_rendered_def)

lemma render_verdict_panel_rendered [simp]:
  "verdict_panel_rendered (renderCourtroomSessionState now w)"
  by (simp add: verdict_panel_rendered_def render_verdict_panel)

lemma verdict_panel_rendered_simps [simp]:
  "verdict_panel_rendered (addLog now msg w) = verdict_panel_rendered w"
  "verdict_panel_rendered (setError m w) = verdict_panel_rendered w"
  "verdict_panel_rendered (setStatus msg w) = verdict_panel_rendered w"
  "verdict_panel_rendered (updateProcessingState b w) = verdict_panel_rendered w"
  "verdict_panel_rendered (flag_send now body w) = verdict_panel_rendered w"
  "verdict_panel_rendered (flag_catch now msg w) = verdict_panel_rendered w"
  "verdict_panel_rendered (flag_finally w) = verdict_panel_rendered w"
  "verdict_panel_rendered (startCourtroomPolling now w) = verdict_panel_rendered w"
  by (simp_all add: verdict_panel_rendered_def addLog_def setError_def setStatus_def
        updateProcessingState_def flag_send_def flag_catch_def flag_finally_def
        startCourtroomPolling_def Let_def)

lemma renderAppUI_verdict_panel:
  "verdict_panel_rendered w \<Longrightarrow> verdict_panel_rendered (renderAppUI now w)"
  by (simp add: renderAppUI_def) (simp add: verdict_panel_rendered_def)

lemma flag_try_verdict_panel:
  assumes "flag_try now r w = Inr w'" and "verdict_panel_rendered w"
  shows "verdict_panel_rendered w'"
proof -
  have "verdict_panel_rendered (x\<lparr> currentCaseIdForCourtroom := c, showCourtroom := True \<rparr>)
          = verdict_panel_rendered x" for x c
    by (simp add: verdict_panel_rendered_def)
  then show ?thesis
    using assms
    by (auto simp: flag_try_def Let_def renderAppUI_verdict_panel
          split: flag_outcome.splits if_splits)
qed

lemma handleFlagPost_verdict_panel:
  assumes "verdict_panel_rendered w"
  shows "verdict_panel_rendered (handleFlagPost now r w)"
proof (cases "flag_validation (trim (postContentInput_value w)) (trim (victimInfoInput_value w))
                (trim (victimEthAddressInput_value w)) (userId w)")
  case (Some msg)
  then show ?thesis using assms by (simp add: handleFlagPost_rejected)
next
  case None
  have "verdict_panel_rendered (case flag_try now r (flag_send now body w) of
                          Inr w7 \<Rightarrow> w7 | Inl m \<Rightarrow> flag_catch now m (flag_send now body w))"
    for body
  proof (cases "flag_try now r (flag_send now body w)")
    case (Inl m)
    then show ?thesis using assms by simp
  next
    case (Inr w7)
    then show ?thesis using flag_try_verdict_panel [OF Inr] assms by simp
  qed
  then show ?thesis
    using None by (simp add: handleFlagPost_def Let_def)
qed

lemma resume_verdict_panel:
  "verdict_panel_rendered (fetchCourtroomUpdates_resume cid now r w)"
proof -
  have "verdict_panel_rendered (x\<lparr> courtroomPollingInterval := None \<rparr>) = verdict_panel_rendered x"
    for x
    by (simp add: verdict_panel_rendered_def)
  then show ?thesis
    by (cases r) (simp_all add: fetchCourtroomUpdates_resume_def Let_def)
qed

lemma handlers_keep_verdict_panel:
  "verdict_panel_rendered initial_world"
  "verdict_panel_rendered w \<Longrightarrow> verdict_panel_rendered (handleFlagPost now fr w)"
  "verdict_panel_rendered w \<Longrightarrow> verdict_panel_rendered (startCourtroomSession now sr w)"
  "verdict_panel_rendered w \<Longrightarrow> verdict_panel_rendered (timer_tick now pr w)"
  "verdict_panel_rendered (resetCourtroomSessionView now w)"
  "verdict_panel_rendered w \<Longrightarrow> verdict_panel_rendered (onSnapshot_next now docs w)"
  "verdict_panel_rendered w \<Longrightarrow> verdict_panel_rendered (onSnapshot_error now m w)"
proof -
  show "verdict_panel_rendered initial_world"
    by (simp add: verdict_panel_rendered_def initial_world_def idle_session_def)
  show "verdict_panel_rendered w \<Longrightarrow> verdict_panel_rendered (handleFlagPost now fr w)"
    by (rule handleFlagPost_verdict_panel)
  have dis: "verdict_panel_rendered (x\<lparr> startCourtroomButton_disabled := b \<rparr>)
          = verdict_panel_rendered x" for x b
    by (simp add: verdict_panel_rendered_def)
  show "verdict_panel_rendered w \<Longrightarrow> verdict_panel_rendered (startCourtroomSession now sr w)"
    by (cases sr) (simp_all add: startCourtroomSession_def Let_def start_failed_def dis)
  have req: "verdict_panel_rendered (x\<lparr> requests := q \<rparr>) = verdict_panel_rendered x" for x q
    by (simp add: verdict_panel_rendered_def)
  show "verdict_panel_rendered w \<Longrightarrow> verdict_panel_rendered (timer_tick now pr w)"
    by (simp add: timer_tick_def fetchCourtroomUpdates_def Let_def resume_verdict_panel)
  show "verdict_panel_rendered (resetCourtroomSessionView now w)"
    by (simp add: resetCourtroomSessionView_def Let_def)
  have cs: "verdict_panel_rendered (x\<lparr> cases := c \<rparr>) = verdict_panel_rendered x" for x c
    by (simp add: verdict_panel_rendered_def)
  show "verdict_panel_rendered w \<Longrightarrow> verdict_panel_rendered (onSnapshot_next now docs w)"
    by (simp add: onSnapshot_next_def Let_def cs)
  show "verdict_panel_rendered w \<Longrightarrow> verdict_panel_rendered (onSnapshot_error now m w)"
    by (simp add: onSnapshot_error_def)
qed

subsection \<open>The example session\<close>

lemma trim_examples:
  "trim ''you are worthless'' = ''you are worthless''"
  "trim '' alice '' = ''alice''"
  "trim [] = []"
  "trim ''   '' = []"
  by (simp_all add: trim_def js_whitespace_def)

lemma example_form_valid:
  "flag_validation (trim (postContentInput_value example_form))
     (trim (victimInfoInput_value example_form))
     (trim (victimEthAddressInput_value example_form)) (userId example_form) = None"
  by (simp add: example_form_def initial_world_def trim_examples flag_validation_def truthy_def
        FASTAPI_BACKEND_URL_def)

lemma spec_address_pattern_example:
  "spec_address_pattern ''0x52908400098527886E0F7030069857D2E4169EE7''"
  unfolding spec_address_pattern_def
  by (intro exI [of _ "''52908400098527886E0F7030069857D2E4169EE7''"]) simp

lemma example_courtroom_state:
  "showCourtroom example_courtroom"
  "currentCaseIdForCourtroom example_courtroom = Some ''c1''"
  "courtroomPollingInterval example_courtroom = Some 1"
  "courtroomSessionState example_courtroom = idle_session"
  "error example_courtroom = Some []"
  "polls_sent example_courtroom = 0"
  by (simp_all add: example_courtroom_def handleFlagPost_def Let_def example_form_valid
        flag_try_def example_flagged_def flag_finally_def updateProcessingState_def
        render_interval terminal_status_def renderAppUI_def polls_sent_def is_poll_def,
      simp_all add: example_form_def initial_world_def idle_session_def flag_send_def Let_def
        updateProcessingState_def setError_def setStatus_def addLog_def)

lemma example_early_verdict_fields:
  "final_verdict example_early_verdict \<noteq> None"
  "court_status example_early_verdict = ''JURY_DELIBERATION''"
  by (simp_all add: example_early_verdict_def)

lemma example_after_early_verdict_eq:
  "example_after_early_verdict =
     fetchCourtroomUpdates_resume ''c1'' ''10:15:03'' (PollSnapshot example_early_verdict)
       (example_courtroom\<lparr> requests := requests example_courtroom @ [GetCourtroomUpdates ''c1''] \<rparr>)"
  by (simp add: example_after_early_verdict_def timer_tick_def fetchCourtroomUpdates_def
        example_courtroom_state truthy_def Let_def)

lemma example_after_early_verdict_state:
  "courtroomSessionState example_after_early_verdict = example_early_verdict"
  "error example_after_early_verdict = Some []"
  "courtroomPollingInterval example_after_early_verdict = Some 1"
  "\<not> finalVerdictDisplay_hidden example_after_early_verdict"
  "currentCaseIdForCourtroom example_after_early_verdict = Some ''c1''"
  "polls_sent example_after_early_verdict = 1"
  using example_courtroom_state(6)
  by (simp_all add: example_after_early_verdict_eq resume_snapshot resume_snapshot_interval
        resume_snapshot_frame example_courtroom_state(1-5) example_early_verdict_fields terminal_status_def
        polls_sent_def is_poll_def)

lemma example_after_failure_eq:
  "example_after_failure =
     fetchCourtroomUpdates_resume ''c1'' ''10:15:06'' (PollThrown ''Failed to fetch'')
       (example_after_early_verdict\<lparr> requests := requests example_after_early_verdict
                                          @ [GetCourtroomUpdates ''c1''] \<rparr>)"
  by (simp add: example_after_failure_def timer_tick_def fetchCourtroomUpdates_def
        example_after_early_verdict_state truthy_def Let_def)





subsection \<open>Polling\<close>




text \<open>
  C2, as the script has it.  A poll accepts every snapshot of a 2xx response as it is:
  the local session state becomes the snapshot whatever its \<open>final_verdict\<close> and
  \<open>court_status\<close> are, and the error text is left alone.  The verdict panel is shown
  exactly when \<open>final_verdict\<close> is non-null, and the interval is cleared exactly when
  \<open>court_status\<close> is \<open>COMPLETED\<close> or \<open>ERROR\<close> (or no interval was running and the courtroom
  is not shown).
\<close>

theorem poll_accepts_every_snapshot:
  "courtroomSessionState (fetchCourtroomUpdates_resume cid now (PollSnapshot d) w) = d
   \<and> error (fetchCourtroomUpdates_resume cid now (PollSnapshot d) w) = error w
   \<and> (finalVerdictDisplay_hidden (fetchCourtroomUpdates_resume cid now (PollSnapshot d) w)
        \<longleftrightarrow> final_verdict d = None)
   \<and> (courtroomPollingInterval (fetchCourtroomUpdates_resume cid now (PollSnapshot d) w) = None
        \<longleftrightarrow> court_status d = ''COMPLETED'' \<or> court_status d = ''ERROR''
            \<or> (courtroomPollingInterval w = None \<and> \<not> showCourtroom w))"
  by (auto simp: resume_snapshot resume_snapshot_interval terminal_status_def)

theorem poll_accepts_every_snapshot_witness:
  "courtroomSessionState
     (fetchCourtroomUpdates_resume ''c1'' ''10:15:03'' (PollSnapshot example_completed)
        example_courtroom) = example_completed
   \<and> error (fetchCourtroomUpdates_resume ''c1'' ''10:15:03'' (PollSnapshot example_completed)
              example_courtroom) = Some []
   \<and> \<not> finalVerdictDisplay_hidden
         (fetchCourtroomUpdates_resume ''c1'' ''10:15:03'' (PollSnapshot example_completed)
            example_courtroom)
   \<and> courtroomPollingInterval
        (fetchCourtroomUpdates_resume ''c1'' ''10:15:03'' (PollSnapshot example_completed)
           example_courtroom) = None"
proof -
  have "final_verdict example_completed \<noteq> None" "court_status example_completed = ''COMPLETED''"
    by (simp_all add: example_completed_def example_early_verdict_def)
  with poll_accepts_every_snapshot [of "''c1''" "''10:15:03''" example_completed example_courtroom]
  show ?thesis
    by (simp add: example_courtroom_state)
qed

text \<open>
  C2 as stated fails: in the example session the snapshot with a verdict and the status
  \<open>JURY_DELIBERATION\<close> is accepted, no error is set, the verdict panel is shown and the
  polling goes on.
\<close>

theorem early_verdict_accepted:
  "courtroomSessionState example_after_early_verdict = example_early_verdict
   \<and> final_verdict example_early_verdict \<noteq> None
   \<and> court_status example_early_verdict \<noteq> ''COMPLETED''
   \<and> error example_after_early_verdict = error example_courtroom
   \<and> courtroomPollingInterval example_after_early_verdict = Some 1
   \<and> \<not> finalVerdictDisplay_hidden example_after_early_verdict"
  by (simp add: example_after_early_verdict_state example_early_verdict_fields
        example_courtroom_state)

text \<open>
  C3.  When a poll fails, by a response that is not 2xx or by a rejected \<open>fetch\<close>, the local
  \<open>court_status\<close> becomes \<open>ERROR\<close>, the message of the failure becomes the
  \<open>error_message\<close> of the session state, and the interval is cleared.  The verdict panel
  stays hidden: when it is hidden before the poll, in a state where it mirrors the session
  state, it is hidden after it.
\<close>

theorem failed_poll_forces_error:
  assumes "(r = PollRejected detail \<and> msg = or_else detail ''Failed to fetch updates.'')
           \<or> r = PollThrown msg"
  shows "court_status (courtroomSessionState (fetchCourtroomUpdates_resume cid now r w)) = ''ERROR''
       \<and> error_message (courtroomSessionState (fetchCourtroomUpdates_resume cid now r w)) = Some msg
       \<and> courtroomPollingInterval (fetchCourtroomUpdates_resume cid now r w) = None
       \<and> (verdict_panel_rendered w \<longrightarrow> finalVerdictDisplay_hidden w
            \<longrightarrow> finalVerdictDisplay_hidden (fetchCourtroomUpdates_resume cid now r w))"
  using assms
  by (auto simp: fetchCourtroomUpdates_resume_def render_verdict_panel render_interval
        terminal_status_def verdict_panel_rendered_def)

theorem failed_poll_forces_error_witness:
  "((PollRejected None = PollRejected None
       \<and> ''Failed to fetch updates.'' = or_else None ''Failed to fetch updates.'')
      \<or> PollRejected None = PollThrown ''Failed to fetch updates.'')
   \<and> verdict_panel_rendered example_courtroom
   \<and> finalVerdictDisplay_hidden example_courtroom
   \<and> court_status (courtroomSessionState
        (fetchCourtroomUpdates_resume ''c1'' ''10:15:03'' (PollRejected None) example_courtroom))
       = ''ERROR''
   \<and> error_message (courtroomSessionState
        (fetchCourtroomUpdates_resume ''c1'' ''10:15:03'' (PollRejected None) example_courtroom))
       = Some ''Failed to fetch updates.''
   \<and> courtroomPollingInterval
        (fetchCourtroomUpdates_resume ''c1'' ''10:15:03'' (PollRejected None) example_courtroom)
       = None
   \<and> finalVerdictDisplay_hidden
        (fetchCourtroomUpdates_resume ''c1'' ''10:15:03'' (PollRejected None) example_courtroom)"
proof -
  have h: "(PollRejected None = PollRejected None
       \<and> ''Failed to fetch updates.'' = or_else None ''Failed to fetch updates.'')
      \<or> PollRejected None = PollThrown ''Failed to fetch updates.''"
    by (simp add: or_else_def)
  have "verdict_panel_rendered example_form"
    using handlers_keep_verdict_panel(1)
    by (simp add: example_form_def verdict_panel_rendered_def)
  then have r: "verdict_panel_rendered example_courtroom"
    unfolding example_courtroom_def by (rule handlers_keep_verdict_panel(2))
  have hid: "finalVerdictDisplay_hidden example_courtroom"
    using r by (simp add: verdict_panel_rendered_def example_courtroom_state idle_session_def)
  from h r hid failed_poll_forces_error [OF h, of "''c1''" "''10:15:03''" example_courtroom]
  show ?thesis by simp
qed

text \<open>
  A panel that is shown stays shown as well: the failure leaves the verdict of the session
  state alone.  In the example session the poll after the early verdict fails, and the
  verdict panel is still shown.
\<close>

lemma failed_poll_after_early_verdict:
  "court_status (courtroomSessionState example_after_failure) = ''ERROR''
   \<and> error_message (courtroomSessionState example_after_failure) = Some ''Failed to fetch''
   \<and> courtroomPollingInterval example_after_failure = None
   \<and> \<not> finalVerdictDisplay_hidden example_after_failure"
  by (simp add: example_after_failure_eq fetchCourtroomUpdates_resume_def render_verdict_panel
        render_interval terminal_status_def example_after_early_verdict_state
        example_early_verdict_fields)

subsection \<open>Reset\<close>

text \<open>
  C4, as the script has it.  A second reset changes nothing but the activity log, which
  gets one more entry; after any reset the status is \<open>IDLE\<close>, the transcript and the agent
  statuses are empty, there is no verdict and no error message, no case is bound and the
  interval is cleared.
\<close>

theorem reset_idempotent_up_to_log:
  "resetCourtroomSessionView t2 (resetCourtroomSessionView t1 w) =
     (resetCourtroomSessionView t1 w)
       \<lparr> log := log (resetCourtroomSessionView t1 w) @ [t2 @ '': Courtroom session view reset.''] \<rparr>
   \<and> court_status (courtroomSessionState (resetCourtroomSessionView t1 w)) = ''IDLE''
   \<and> transcript (courtroomSessionState (resetCourtroomSessionView t1 w)) = []
   \<and> agents_status (courtroomSessionState (resetCourtroomSessionView t1 w)) = Map.empty
   \<and> final_verdict (courtroomSessionState (resetCourtroomSessionView t1 w)) = None
   \<and> error_message (courtroomSessionState (resetCourtroomSessionView t1 w)) = None
   \<and> currentCaseIdForCourtroom (resetCourtroomSessionView t1 w) = None
   \<and> courtroomPollingInterval (resetCourtroomSessionView t1 w) = None"
  by (simp add: reset_explicit idle_session_def)

theorem reset_idempotent_up_to_log_witness:
  "log (resetCourtroomSessionView ''10:20:05''
          (resetCourtroomSessionView ''10:20:00'' example_courtroom))
     = log (resetCourtroomSessionView ''10:20:00'' example_courtroom)
         @ [''10:20:05: Courtroom session view reset.'']
   \<and> court_status (courtroomSessionState
        (resetCourtroomSessionView ''10:20:00'' example_courtroom)) = ''IDLE''
   \<and> currentCaseIdForCourtroom (resetCourtroomSessionView ''10:20:00'' example_courtroom) = None
   \<and> courtroomPollingInterval (resetCourtroomSessionView ''10:20:00'' example_courtroom) = None"
proof -
  note r = reset_idempotent_up_to_log [of "''10:20:05''" "''10:20:00''" example_courtroom]
  from r have "log (resetCourtroomSessionView ''10:20:05''
          (resetCourtroomSessionView ''10:20:00'' example_courtroom))
     = log ((resetCourtroomSessionView ''10:20:00'' example_courtroom)
       \<lparr> log := log (resetCourtroomSessionView ''10:20:00'' example_courtroom)
                  @ [''10:20:05'' @ '': Courtroom session view reset.''] \<rparr>)"
    by simp
  with r show ?thesis by simp
qed

text \<open>
  C4 as stated fails: two resets of the initial state do not give the state one reset
  gives, even at the same reading of the clock.
\<close>

theorem reset_twice_differs:
  "resetCourtroomSessionView ''10:20:00'' (resetCourtroomSessionView ''10:20:00'' initial_world)
     \<noteq> resetCourtroomSessionView ''10:20:00'' initial_world"
proof
  assume "resetCourtroomSessionView ''10:20:00'' (resetCourtroomSessionView ''10:20:00'' initial_world)
     = resetCourtroomSessionView ''10:20:00'' initial_world"
  then have "length (log (resetCourtroomSessionView ''10:20:00''
                            (resetCourtroomSessionView ''10:20:00'' initial_world)))
             = length (log (resetCourtroomSessionView ''10:20:00'' initial_world))"
    by simp
  then show False
    by (simp add: reset_explicit)
qed

subsection \<open>Flagging a post\<close>

text \<open>
  C5.  For every string \<open>s\<close> given to the address check (the trimmed value of the address
  field), with content and victim information present: the check fails with the message
  for the address exactly when \<open>s\<close> is neither empty nor of the form \<open>0x\<close> followed by
  exactly forty hexadecimal characters; and then \<open>handleFlagPost\<close> sets this error and
  sends no request.
\<close>

theorem victim_address_validation:
  assumes "pContent \<noteq> []" and "vInfo \<noteq> []"
  shows "(flag_validation pContent vInfo s uid =
            Some ''Please enter a valid Ethereum/Polygon address (starts with 0x and is 42 characters long).''
          \<longleftrightarrow> \<not> (s = [] \<or> spec_address_pattern s))
       \<and> (\<forall>w now r.
            trim (postContentInput_value w) = pContent \<and> trim (victimInfoInput_value w) = vInfo
            \<and> trim (victimEthAddressInput_value w) = s \<and> userId w = uid
            \<and> \<not> (s = [] \<or> spec_address_pattern s)
            \<longrightarrow> handleFlagPost now r w =
                  setError (Some ''Please enter a valid Ethereum/Polygon address (starts with 0x and is 42 characters long).'') w
                \<and> requests (handleFlagPost now r w) = requests w)"
proof -
  have v: "flag_validation pContent vInfo s uid =
            Some ''Please enter a valid Ethereum/Polygon address (starts with 0x and is 42 characters long).''
          \<longleftrightarrow> \<not> (s = [] \<or> spec_address_pattern s)"
    using assms by (simp add: flag_validation_def address_regex_test_iff)
  have "handleFlagPost now r w =
          setError (Some ''Please enter a valid Ethereum/Polygon address (starts with 0x and is 42 characters long).'') w
        \<and> requests (handleFlagPost now r w) = requests w"
    if "trim (postContentInput_value w) = pContent" "trim (victimInfoInput_value w) = vInfo"
       "trim (victimEthAddressInput_value w) = s" "userId w = uid"
       "\<not> (s = [] \<or> spec_address_pattern s)"
    for w now r
  proof -
    have "flag_validation (trim (postContentInput_value w)) (trim (victimInfoInput_value w))
             (trim (victimEthAddressInput_value w)) (userId w)
          = Some ''Please enter a valid Ethereum/Polygon address (starts with 0x and is 42 characters long).''"
      using v that by simp
    then have "handleFlagPost now r w =
          setError (Some ''Please enter a valid Ethereum/Polygon address (starts with 0x and is 42 characters long).'') w"
      by (rule handleFlagPost_rejected)
    then show ?thesis by simp
  qed
  with v show ?thesis by blast
qed

theorem victim_address_validation_witness:
  "''you are worthless'' \<noteq> [] \<and> ''alice'' \<noteq> []
   \<and> flag_validation ''you are worthless'' ''alice'' ''0x1234'' (Some ''u1'') =
       Some ''Please enter a valid Ethereum/Polygon address (starts with 0x and is 42 characters long).''
   \<and> \<not> spec_address_pattern ''0x1234''
   \<and> flag_validation ''you are worthless'' ''alice''
        ''0x52908400098527886E0F7030069857D2E4169EE7'' (Some ''u1'') = None"
proof -
  have h1: "''you are worthless'' \<noteq> []" and h2: "''alice'' \<noteq> []"
    by simp_all
  have bad: "flag_validation ''you are worthless'' ''alice'' ''0x1234'' (Some ''u1'') =
       Some ''Please enter a valid Ethereum/Polygon address (starts with 0x and is 42 characters long).''"
    by (simp add: flag_validation_def address_regex_test_def numeral_eq_Suc)
  have "flag_validation ''you are worthless'' ''alice''
        ''0x52908400098527886E0F7030069857D2E4169EE7'' (Some ''u1'') \<noteq>
       Some ''Please enter a valid Ethereum/Polygon address (starts with 0x and is 42 characters long).''"
    using victim_address_validation [OF h1 h2, of "''0x52908400098527886E0F7030069857D2E4169EE7''" "Some ''u1''"]
      spec_address_pattern_example by blast
  then have good: "flag_validation ''you are worthless'' ''alice''
        ''0x52908400098527886E0F7030069857D2E4169EE7'' (Some ''u1'') = None"
    by (simp add: flag_validation_def truthy_def FASTAPI_BACKEND_URL_def split: if_splits)
  from bad victim_address_validation [OF h1 h2, of "''0x1234''" "Some ''u1''"]
  have "\<not> spec_address_pattern ''0x1234''" by blast
  with h1 h2 bad good show ?thesis by blast
qed

text \<open>
  C6.  When the post content or the victim information is empty after trimming,
  \<open>handleFlagPost\<close> only sets the error of the empty field, and sends no request.
\<close>

theorem flag_post_empty_fields:
  assumes "trim (postContentInput_value w) = [] \<or> trim (victimInfoInput_value w) = []"
  shows "handleFlagPost now r w =
           setError (Some (if trim (postContentInput_value w) = []
                           then ''Please enter the post content.''
                           else ''Please enter victim information.'')) w
         \<and> requests (handleFlagPost now r w) = requests w"
proof -
  have "flag_validation (trim (postContentInput_value w)) (trim (victimInfoInput_value w))
          (trim (victimEthAddressInput_value w)) (userId w)
        = Some (if trim (postContentInput_value w) = []
                then ''Please enter the post content.''
                else ''Please enter victim information.'')"
    using assms by (auto simp: flag_validation_def)
  then have "handleFlagPost now r w =
           setError (Some (if trim (postContentInput_value w) = []
                           then ''Please enter the post content.''
                           else ''Please enter victim information.'')) w"
    by (rule handleFlagPost_rejected)
  then show ?thesis by simp
qed

theorem flag_post_empty_fields_witness:
  "(trim (postContentInput_value (example_form\<lparr> postContentInput_value := ''   '' \<rparr>)) = []
     \<or> trim (victimInfoInput_value (example_form\<lparr> postContentInput_value := ''   '' \<rparr>)) = [])
   \<and> error (handleFlagPost ''10:15:00'' example_flagged
               (example_form\<lparr> postContentInput_value := ''   '' \<rparr>))
       = Some ''Please enter the post content.''
   \<and> requests (handleFlagPost ''10:15:00'' example_flagged
                  (example_form\<lparr> postContentInput_value := ''   '' \<rparr>)) = []"
proof -
  let ?w = "example_form\<lparr> postContentInput_value := ''   '' \<rparr>"
  have h: "trim (postContentInput_value ?w) = [] \<or> trim (victimInfoInput_value ?w) = []"
    by (simp add: trim_examples)
  have "requests ?w = []"
    by (simp add: example_form_def initial_world_def)
  with h flag_post_empty_fields [OF h, of "''10:15:00''" example_flagged] show ?thesis
    by (simp add: trim_examples)
qed

text \<open>
  C7.  When the checks pass and the request is sent, then whatever the backend answers,
  the content, the link and the victim information fields are empty afterwards, and the
  address field has the value it had.
\<close>

theorem flag_post_form_fields:
  assumes "flag_validation (trim (postContentInput_value w)) (trim (victimInfoInput_value w))
             (trim (victimEthAddressInput_value w)) (userId w) = None"
  shows "postContentInput_value (handleFlagPost now r w) = []
       \<and> postLinkInput_value (handleFlagPost now r w) = []
       \<and> victimInfoInput_value (handleFlagPost now r w) = []
       \<and> victimEthAddressInput_value (handleFlagPost now r w) = victimEthAddressInput_value w"
  using handleFlagPost_sent(1-4) [OF assms] by simp

theorem flag_post_form_fields_witness:
  "flag_validation (trim (postContentInput_value example_form))
     (trim (victimInfoInput_value example_form))
     (trim (victimEthAddressInput_value example_form)) (userId example_form) = None
   \<and> postContentInput_value (handleFlagPost ''10:15:00'' example_flagged example_form) = []
   \<and> postLinkInput_value (handleFlagPost ''10:15:00'' example_flagged example_form) = []
   \<and> victimInfoInput_value (handleFlagPost ''10:15:00'' example_flagged example_form) = []
   \<and> victimEthAddressInput_value (handleFlagPost ''10:15:00'' example_flagged example_form) = []"
proof -
  have "victimEthAddressInput_value example_form = []"
    by (simp add: example_form_def initial_world_def)
  with example_form_valid
    flag_post_form_fields [OF example_form_valid, of "''10:15:00''" example_flagged]
  show ?thesis by simp
qed

subsection \<open>The ledger mirror\<close>

text \<open>
  C8.  With a user signed in, after two snapshots \<open>S1\<close> and then \<open>S2\<close> the cache holds
  the records of \<open>S2\<close>, one for each document and in the order of the snapshot, and
  nothing of \<open>S1\<close>.
\<close>

theorem ledger_mirror_replaces:
  assumes "truthy (userId w)"
  shows "cases (onSnapshot_next t2 S2 (onSnapshot_next t1 S1 w)) = map case_of_doc S2"
  using assms by (simp add: onSnapshot_next_def Let_def)

theorem ledger_mirror_replaces_witness:
  "truthy (userId example_form)
   \<and> cases (onSnapshot_next ''10:16:00'' example_S2
              (onSnapshot_next ''10:15:00'' example_S1 example_form))
       = [[''id'' \<mapsto> JString ''d'', ''socialScore'' \<mapsto> JNumber 0]]"
proof -
  have h: "truthy (userId example_form)"
    by (simp add: example_form_def truthy_def)
  have "map case_of_doc example_S2 = [[''id'' \<mapsto> JString ''d'', ''socialScore'' \<mapsto> JNumber 0]]"
    by (simp add: example_S2_def case_of_doc_def)
  with h ledger_mirror_replaces [OF h, of "''10:16:00''" example_S2 "''10:15:00''" example_S1]
  show ?thesis by simp
qed

subsection \<open>Polling without a case\<close>

text \<open>
  C9.  When no case is bound, \<open>fetchCourtroomUpdates\<close> changes nothing: no request, and
  the same state.
\<close>

theorem poll_without_case_is_noop:
  assumes "currentCaseIdForCourtroom w = None"
  shows "fetchCourtroomUpdates now r w = w"
  using assms by (simp add: fetchCourtroomUpdates_def truthy_def)

theorem poll_without_case_is_noop_witness:
  "currentCaseIdForCourtroom initial_world = None
   \<and> fetchCourtroomUpdates ''10:15:00'' (PollThrown ''Failed to fetch'') initial_world = initial_world"
proof -
  have h: "currentCaseIdForCourtroom initial_world = None"
    by (simp add: initial_world_def)
  from h poll_without_case_is_noop [OF h] show ?thesis by simp
qed

section \<open>Properties of the ledger contract\<close>

lemma recordCase_Inr:
  assumes "recordCase cid phash victim vtype decision penalty ban expl compensation score now s = Inr s'"
  shows "timestamp (cases_storage s cid) = 0"
    and "\<not> fineCollected (cases_storage s' cid)"
    and "\<not> compensationDistributed (cases_storage s' cid)"
    and "\<And>c. c \<noteq> cid \<Longrightarrow> cases_storage s' c = cases_storage s c"
  using assms by (auto simp: recordCase_def split: if_splits)

lemma payFine_Inr:
  assumes "payFine cid msg_value s = Inr s'"
  shows "fineCollected (cases_storage s' cid)"
    and "timestamp (cases_storage s' cid) = timestamp (cases_storage s cid)"
    and "compensationDistributed (cases_storage s' cid) = compensationDistributed (cases_storage s cid)"
    and "\<And>c. c \<noteq> cid \<Longrightarrow> cases_storage s' c = cases_storage s c"
  using assms by (auto simp: payFine_def Let_def split: if_splits)

lemma distribute_requires_None:
  assumes "distribute_requires cid s = None"
  shows "timestamp (cases_storage s cid) \<noteq> 0" and "fineCollected (cases_storage s cid)"
  using assms by (auto simp: distribute_requires_def Let_def split: if_splits)

lemma distributeCompensation_Inr:
  assumes "distributeCompensation cid callee s = Inr s'"
  shows "distribute_requires cid s = None"
    and "s' = distribute_finish cid (snd (callee (distribute_transfer cid s)))"
  using assms
  by (auto simp: distributeCompensation_def split: option.splits prod.splits if_splits)

lemma reaches_keeps:
  "reaches s s' \<Longrightarrow>
     (\<forall>c. timestamp (cases_storage s c) \<noteq> 0 \<and> fineCollected (cases_storage s c)
          \<longrightarrow> timestamp (cases_storage s' c) \<noteq> 0 \<and> fineCollected (cases_storage s' c))
     \<and> (ledger_inv s \<longrightarrow> ledger_inv s')"
proof (induction rule: reaches.induct)
  case (reaches_refl s)
  show ?case by simp
next
  case (reaches_recordCase s s1 cid phash victim vtype decision penalty ban expl compensation score now s2)
  note r = recordCase_Inr [OF reaches_recordCase.hyps(2)]
  have "\<And>c. timestamp (cases_storage s1 c) \<noteq> 0 \<Longrightarrow> cases_storage s2 c = cases_storage s1 c"
    using r(1) r(4) by metis
  moreover have "ledger_inv s1 \<Longrightarrow> ledger_inv s2"
    unfolding ledger_inv_def using r(3) r(4) by metis
  ultimately show ?case using reaches_recordCase.IH by metis
next
  case (reaches_payFine s s1 cid msg_value s2)
  note p = payFine_Inr [OF reaches_payFine.hyps(2)]
  have "\<And>c. timestamp (cases_storage s1 c) \<noteq> 0 \<and> fineCollected (cases_storage s1 c)
          \<Longrightarrow> timestamp (cases_storage s2 c) \<noteq> 0 \<and> fineCollected (cases_storage s2 c)"
    using p(1) p(2) p(4) by metis
  moreover have "ledger_inv s1 \<Longrightarrow> ledger_inv s2"
    unfolding ledger_inv_def using p(1) p(4) by metis
  ultimately show ?case using reaches_payFine.IH by metis
next
  case (reaches_distributeCompensation s s1 cid callee s2)
  let ?t = "distribute_transfer cid s1"
  let ?u = "snd (callee ?t)"
  note d = distributeCompensation_Inr [OF reaches_distributeCompensation.hyps(3)]
  note q = distribute_requires_None [OF d(1)]
  have t: "cases_storage ?t = cases_storage s1"
    by (simp add: distribute_transfer_def)
  have fin: "\<And>c. timestamp (cases_storage s2 c) = timestamp (cases_storage ?u c)
                \<and> fineCollected (cases_storage s2 c) = fineCollected (cases_storage ?u c)
                \<and> (c \<noteq> cid \<longrightarrow> cases_storage s2 c = cases_storage ?u c)"
    unfolding d(2) by (simp add: distribute_finish_def Let_def)
  have keep: "\<And>c. timestamp (cases_storage s1 c) \<noteq> 0 \<and> fineCollected (cases_storage s1 c)
          \<Longrightarrow> timestamp (cases_storage ?u c) \<noteq> 0 \<and> fineCollected (cases_storage ?u c)"
    using reaches_distributeCompensation.IH(2) t by simp
  have "fineCollected (cases_storage s2 cid)"
    using keep [of cid] q fin [of cid] by simp
  moreover have "ledger_inv s1 \<Longrightarrow> ledger_inv ?u"
    using reaches_distributeCompensation.IH(2) t by (simp add: ledger_inv_def)
  ultimately have "ledger_inv s1 \<Longrightarrow> ledger_inv s2"
    unfolding ledger_inv_def using fin by metis
  moreover have "\<And>c. timestamp (cases_storage s1 c) \<noteq> 0 \<and> fineCollected (cases_storage s1 c)
          \<Longrightarrow> timestamp (cases_storage s2 c) \<noteq> 0 \<and> fineCollected (cases_storage s2 c)"
    using keep fin by simp
  ultimately show ?case using reaches_distributeCompensation.IH(1) by metis
qed

lemma ledger_inv_deployed: "ledger_inv deployed"
  by (simp add: ledger_inv_def deployed_def zero_Case_def)

text \<open>
  C10.  In every state the contract reaches from its deployment, and for every case
  identifier: a case whose compensation has been distributed has had its fine collected.
  \<open>recordCase\<close> writes both flags as false, \<open>payFine\<close> alone sets \<open>fineCollected\<close>, and
  \<open>distributeCompensation\<close> sets \<open>compensationDistributed\<close> only after it has required
  \<open>fineCollected\<close>; this also holds when the receiving address calls back into the
  contract during the transfer.
\<close>

theorem compensation_implies_fine:
  assumes "reaches deployed s" and "compensationDistributed (cases_storage s cid)"
  shows "fineCollected (cases_storage s cid)"
proof -
  have "ledger_inv s"
    using reaches_keeps [OF assms(1)] ledger_inv_deployed by blast
  with assms(2) show ?thesis
    unfolding ledger_inv_def by blast
qed

theorem compensation_implies_fine_witness:
  "reaches deployed example_distributed
   \<and> compensationDistributed (cases_storage example_distributed ''c1'')
   \<and> fineCollected (cases_storage example_distributed ''c1'')"
proof -
  have r: "recordCase ''c1'' ''9f2a'' 7 ''Defamation'' ''Guilty'' 100 ''Temporary'' ''insult''
              40 35 1700000000 deployed = Inr example_recorded"
    by (simp add: example_recorded_def recordCase_def deployed_def zero_Case_def)
  have ts: "timestamp (cases_storage example_recorded ''c1'') = 1700000000"
      "\<not> fineCollected (cases_storage example_recorded ''c1'')"
      "penaltyAmountWei (cases_storage example_recorded ''c1'') = 100"
    by (simp_all add: example_recorded_def recordCase_def deployed_def zero_Case_def)
  have p: "payFine ''c1'' 100 example_recorded = Inr example_paid"
    by (simp add: example_paid_def payFine_def Let_def ts)
  have paid: "timestamp (cases_storage example_paid ''c1'') = 1700000000"
      "fineCollected (cases_storage example_paid ''c1'')"
      "\<not> compensationDistributed (cases_storage example_paid ''c1'')"
      "compensationToVictimWei (cases_storage example_paid ''c1'') = 40"
      "balance example_paid = 100"
    by (simp_all add: example_paid_def payFine_def Let_def ts example_recorded_def recordCase_def
          deployed_def zero_Case_def)
  have q: "distribute_requires ''c1'' example_paid = None"
    by (simp add: distribute_requires_def Let_def paid)
  have d: "distributeCompensation ''c1'' (\<lambda>t. (True, t)) example_paid = Inr example_distributed"
    by (simp add: example_distributed_def distributeCompensation_def q)
  have "reaches deployed example_recorded"
    by (rule reaches_recordCase [OF reaches_refl r])
  then have "reaches deployed example_paid"
    by (rule reaches_payFine [OF _ p])
  then have reach: "reaches deployed example_distributed"
    by (rule reaches_distributeCompensation [OF _ _ d]) (simp add: reaches_refl)
  have dist: "compensationDistributed (cases_storage example_distributed ''c1'')"
    by (simp add: example_distributed_def distributeCompensation_def q distribute_finish_def Let_def)
  from reach dist compensation_implies_fine [OF reach dist] show ?thesis
    by simp
qed

end
